theory Spec2Isabelle
  imports Complex_Main "HOL-Library.Log_Nat"
begin

section \<open>Python strings\<close>

text \<open>
  Page text, attribute values and labels are Python \<open>str\<close> values.  They are modelled
  as \<open>string\<close>; the model covers ASCII text (a character above 127 is left alone by
  \<open>py_lower\<close> and is never white space).
\<close>

definition is_space :: "char \<Rightarrow> bool" where
  \<comment> \<open>\<open>str.isspace\<close> on ASCII: tab, LF, VT, FF, CR, the separators 28..31 and the blank\<close>
  "is_space c =
     (c \<in> set [CHR 0x09, CHR 0x0A, CHR 0x0B, CHR 0x0C, CHR 0x0D,
                CHR 0x1C, CHR 0x1D, CHR 0x1E, CHR 0x1F, CHR 0x20])"

definition lower_char :: "char \<Rightarrow> char" where
  "lower_char c =
     (case map_of (zip ''ABCDEFGHIJKLMNOPQRSTUVWXYZ'' ''abcdefghijklmnopqrstuvwxyz'') c of
        Some l \<Rightarrow> l
      | None \<Rightarrow> c)"

definition py_lower :: "string \<Rightarrow> string" where
  \<comment> \<open>\<open>s.lower()\<close>\<close>
  "py_lower s = map lower_char s"

definition py_strip :: "string \<Rightarrow> string" where
  \<comment> \<open>\<open>s.strip()\<close>\<close>
  "py_strip s = rev (dropWhile is_space (rev (dropWhile is_space s)))"

fun startswith :: "string \<Rightarrow> string \<Rightarrow> bool" where
  \<comment> \<open>\<open>s.startswith(p)\<close>\<close>
  "startswith s [] = True"
| "startswith [] (p # ps) = False"
| "startswith (c # cs) (p # ps) = (c = p \<and> startswith cs ps)"

fun str_in :: "string \<Rightarrow> string \<Rightarrow> bool" where
  \<comment> \<open>\<open>sub in s\<close>\<close>
  "str_in sub [] = (sub = [])"
| "str_in sub (c # cs) = (startswith (c # cs) sub \<or> str_in sub cs)"

function split_from :: "string \<Rightarrow> string \<Rightarrow> string \<Rightarrow> string list" where
  \<comment> \<open>the fields of \<open>s.split(sep)\<close> from a position on; \<open>cur\<close> is the field read so
      far, reversed\<close>
  "split_from sep cur s =
     (case s of
        [] \<Rightarrow> [rev cur]
      | c # t \<Rightarrow>
          if sep \<noteq> [] \<and> startswith s sep
          then rev cur # split_from sep [] (drop (length sep) s)
          else split_from sep (c # cur) t)"
  by pat_completeness auto
termination
  by (relation "measure (\<lambda>(sep, cur, s). length s)") auto

definition py_split :: "string \<Rightarrow> string \<Rightarrow> string list" where
  \<comment> \<open>\<open>s.split(sep)\<close> for a non-empty separator (Python raises ValueError on an empty
      one; every call of the source passes a literal)\<close>
  "py_split s sep = split_from sep [] s"

section \<open>Python exceptions and numbers\<close>

datatype exn =
    ValueError string
  | TypeError string
  | OverflowError string
  | RequestException string
  | Exception string

fun py_str :: "exn \<Rightarrow> string" where
  \<comment> \<open>\<open>str(e)\<close>\<close>
  "py_str (ValueError m) = m"
| "py_str (TypeError m) = m"
| "py_str (OverflowError m) = m"
| "py_str (RequestException m) = m"
| "py_str (Exception m) = m"

text \<open>
  A Python \<open>float\<close> is a binary64 number: a rational that the format represents, an
  infinity or a NaN (the two zeros are one value \<open>Fin 0\<close> here).  Conversion from
  decimal text and \<open>round\<close> are correctly rounded in CPython, so both are the exact
  rational result rounded to the nearest binary64, ties to even.
\<close>

datatype pyfloat = Fin rat | PInf | NInf | NaN

definition pow2 :: "int \<Rightarrow> rat" where
  "pow2 e = (if e \<ge> 0 then 2 ^ nat e else 1 / 2 ^ nat (- e))"

definition pow10 :: "int \<Rightarrow> rat" where
  "pow10 e = (if e \<ge> 0 then 10 ^ nat e else 1 / 10 ^ nat (- e))"

definition round_half_even :: "rat \<Rightarrow> int" where
  "round_half_even q =
     (let f = \<lfloor>q\<rfloor>; d = q - of_int f in
      if d < 1 / 2 then f else if d > 1 / 2 then f + 1 else if even f then f else f + 1)"

definition ilog2 :: "rat \<Rightarrow> int" where
  \<comment> \<open>\<open>\<lfloor>log\<^sub>2 q\<rfloor>\<close> for a positive \<open>q\<close> (and a negative number for \<open>0\<close>)\<close>
  "ilog2 q =
     (let (a, b) = quotient_of q; e = bitlen a - bitlen b in
      if pow2 e \<le> q then e else e - 1)"

definition round_to_double :: "rat \<Rightarrow> pyfloat" where
  \<comment> \<open>53 significant bits, least exponent \<open>-1074\<close>, overflow from \<open>2^1024\<close> on\<close>
  "round_to_double q =
     (if q = 0 then Fin 0
      else
        let a = \<bar>q\<bar>;
            p = max (ilog2 a - 52) (- 1074);
            r = of_int (round_half_even (a / pow2 p)) * pow2 p
        in if ilog2 r \<ge> 1024 then (if q < 0 then NInf else PInf)
           else Fin (if q < 0 then - r else r))"

definition py_round1 :: "pyfloat \<Rightarrow> pyfloat" where
  \<comment> \<open>\<open>round(x, 1)\<close>\<close>
  "py_round1 x =
     (case x of
        Fin q \<Rightarrow> round_to_double (of_int (round_half_even (q * 10)) / 10)
      | _ \<Rightarrow> x)"

definition py_int_of_float :: "pyfloat \<Rightarrow> exn + int" where
  \<comment> \<open>\<open>int(x)\<close> for a float \<open>x\<close>: truncation towards zero\<close>
  "py_int_of_float x =
     (case x of
        Fin q \<Rightarrow> Inr (if q \<ge> 0 then \<lfloor>q\<rfloor> else \<lceil>q\<rceil>)
      | NaN \<Rightarrow> Inl (ValueError ''cannot convert float NaN to integer'')
      | _ \<Rightarrow> Inl (OverflowError ''cannot convert float infinity to integer''))"

definition is_digit :: "char \<Rightarrow> bool" where
  "is_digit c = (c \<in> set ''0123456789'')"

definition digits_value :: "string \<Rightarrow> int" where
  "digits_value ds = foldl (\<lambda>n c. 10 * n + (int (of_char c) - 48)) 0 ds"

fun underscores_ok :: "char option \<Rightarrow> string \<Rightarrow> bool" where
  \<comment> \<open>numeric literals: an underscore stands between two digits\<close>
  "underscores_ok prev [] = (if prev = Some CHR ''_'' then False else True)"
| "underscores_ok prev (c # cs) =
     (if c = CHR ''_''
      then (case prev of Some d \<Rightarrow> is_digit d \<and> underscores_ok (Some c) cs | None \<Rightarrow> False)
      else if prev = Some CHR ''_'' \<and> \<not> is_digit c then False
      else underscores_ok (Some c) cs)"

definition split_sign :: "string \<Rightarrow> bool \<times> string" where
  \<comment> \<open>an optional sign: is it a minus, and the text after it\<close>
  "split_sign s =
     (case s of
        c # t \<Rightarrow> if c = CHR ''-'' then (True, t) else if c = CHR ''+'' then (False, t) else (False, s)
      | [] \<Rightarrow> (False, s))"

definition quoted :: "string \<Rightarrow> string" where
  \<comment> \<open>Python prints \<open>repr(s)\<close> in its messages; the model puts \<open>s\<close> between quotes\<close>
  "quoted s = [CHR 0x27] @ s @ [CHR 0x27]"

definition py_int :: "string \<Rightarrow> exn + int" where
  \<comment> \<open>\<open>int(s)\<close> for a string \<open>s\<close>: white space around an optional sign and decimal digits\<close>
  "py_int s =
     (let t = py_strip s;
          (neg, body) = split_sign t;
          ds = filter (\<lambda>c. c \<noteq> CHR ''_'') body
      in if ds \<noteq> [] \<and> list_all is_digit ds \<and> underscores_ok None body
         then Inr (if neg then - digits_value ds else digits_value ds)
         else Inl (ValueError (''invalid literal for int() with base 10: '' @ quoted s)))"

definition parse_exponent :: "string \<Rightarrow> int option" where
  \<comment> \<open>the rest of a float literal after its mantissa\<close>
  "parse_exponent r =
     (case r of
        [] \<Rightarrow> Some 0
      | c # t \<Rightarrow>
          if c = CHR ''e'' \<or> c = CHR ''E'' then
            (let (neg, ds) = split_sign t in
             if ds \<noteq> [] \<and> list_all is_digit ds
             then Some (if neg then - digits_value ds else digits_value ds) else None)
          else None)"

definition parse_decimal :: "string \<Rightarrow> rat option" where
  \<comment> \<open>digits, an optional point and digits, an optional exponent; a digit is required\<close>
  "parse_decimal body =
     (let ip = takeWhile is_digit body;
          r1 = dropWhile is_digit body;
          point = (r1 \<noteq> [] \<and> hd r1 = CHR ''.'');
          fp = (if point then takeWhile is_digit (tl r1) else []);
          r2 = (if point then dropWhile is_digit (tl r1) else r1)
      in if ip = [] \<and> fp = [] then None
         else (case parse_exponent r2 of
                 None \<Rightarrow> None
               | Some e \<Rightarrow> Some (of_int (digits_value (ip @ fp)) * pow10 (e - int (length fp)))))"

definition py_float :: "string \<Rightarrow> exn + pyfloat" where
  \<comment> \<open>\<open>float(s)\<close> for a string \<open>s\<close>\<close>
  "py_float s =
     (let t = py_strip s;
          (neg, body0) = split_sign t;
          body = filter (\<lambda>c. c \<noteq> CHR ''_'') body0;
          word = py_lower body0
      in if word = ''inf'' \<or> word = ''infinity'' then Inr (if neg then NInf else PInf)
         else if word = ''nan'' then Inr NaN
         else if \<not> underscores_ok None t then Inl (ValueError (''could not convert string to float: '' @ quoted s))
         else (case parse_decimal body of
                 None \<Rightarrow> Inl (ValueError (''could not convert string to float: '' @ quoted s))
               | Some q \<Rightarrow> Inr (round_to_double (if neg then - q else q))))"

definition time_sleep :: "pyfloat \<Rightarrow> exn option" where
  \<comment> \<open>\<open>time.sleep(secs)\<close>: the exception it raises, if any.  (CPython also refuses a
      finite delay beyond the range of its clock, some 292 years; the model lets it sleep.)\<close>
  "time_sleep secs =
     (case secs of
        NaN \<Rightarrow> Some (ValueError ''Invalid value NaN (not a number)'')
      | PInf \<Rightarrow> Some (OverflowError ''timestamp too large to convert to C _PyTime_t'')
      | NInf \<Rightarrow> Some (OverflowError ''timestamp too large to convert to C _PyTime_t'')
      | Fin q \<Rightarrow> if q < 0 then Some (ValueError ''sleep length must be non-negative'') else None)"

section \<open>Regular expressions\<close>

text \<open>
  The fragment of Python's \<open>re\<close> that the patterns of the source use, with the
  backtracking order of \<open>re\<close>: \<open>rmatch\<close> lists the ways a pattern matches at the start
  of a text, the preferred one first (greedy repetition and option, left alternative first).
  A match state is the text still to read and the text of group 1, once it has matched.
\<close>

datatype cls =
    Lit char
  | Digit
  | Space
  | OneOf "char list"
  | NoneOf "char list"

fun cls_match :: "bool \<Rightarrow> cls \<Rightarrow> char \<Rightarrow> bool" where
  \<comment> \<open>the flag is \<open>re.IGNORECASE\<close>\<close>
  "cls_match ic (Lit a) x = (if ic then lower_char x = lower_char a else x = a)"
| "cls_match ic Digit x = is_digit x"
| "cls_match ic Space x = is_space x"
| "cls_match ic (OneOf cs) x =
     (if ic then lower_char x \<in> set (map lower_char cs) else x \<in> set cs)"
| "cls_match ic (NoneOf cs) x =
     (if ic then lower_char x \<notin> set (map lower_char cs) else x \<notin> set cs)"

datatype regex =
    Eps
  | Atom cls
  | Seq regex regex
  | Alt regex regex
  | Opt regex
  | Star cls
  | Plus cls
  | Group regex

type_synonym mstate = "string \<times> string option"

fun star_cls :: "bool \<Rightarrow> cls \<Rightarrow> string \<Rightarrow> string option \<Rightarrow> mstate list" where
  "star_cls ic c [] g = [([], g)]"
| "star_cls ic c (x # t) g =
     (if cls_match ic c x then star_cls ic c t g @ [(x # t, g)] else [(x # t, g)])"

fun rmatch :: "bool \<Rightarrow> regex \<Rightarrow> mstate \<Rightarrow> mstate list" where
  "rmatch ic Eps st = [st]"
| "rmatch ic (Atom c) st =
     (case fst st of
        [] \<Rightarrow> []
      | x # t \<Rightarrow> if cls_match ic c x then [(t, snd st)] else [])"
| "rmatch ic (Seq a b) st = concat (map (rmatch ic b) (rmatch ic a st))"
| "rmatch ic (Alt a b) st = rmatch ic a st @ rmatch ic b st"
| "rmatch ic (Opt a) st = rmatch ic a st @ [st]"
| "rmatch ic (Star c) st = star_cls ic c (fst st) (snd st)"
| "rmatch ic (Plus c) st =
     (case fst st of
        [] \<Rightarrow> []
      | x # t \<Rightarrow> if cls_match ic c x then star_cls ic c t (snd st) else [])"
| "rmatch ic (Group a) st =
     map (\<lambda>st'. (fst st', Some (take (length (fst st) - length (fst st')) (fst st))))
       (rmatch ic a st)"

fun re_search :: "bool \<Rightarrow> regex \<Rightarrow> string \<Rightarrow> mstate option" where
  \<comment> \<open>\<open>re.search(pattern, text, flags)\<close>: the preferred match at the leftmost position
      that has one\<close>
  "re_search ic r [] = (case rmatch ic r ([], None) of [] \<Rightarrow> None | st # _ \<Rightarrow> Some st)"
| "re_search ic r (x # t) =
     (case rmatch ic r (x # t, None) of [] \<Rightarrow> re_search ic r t | st # _ \<Rightarrow> Some st)"

definition group1 :: "mstate \<Rightarrow> exn + string" where
  \<comment> \<open>\<open>float(match.group(1))\<close> reads the group; \<open>float(None)\<close> is a TypeError\<close>
  "group1 m =
     (case snd m of
        Some g \<Rightarrow> Inr g
      | None \<Rightarrow> Inl (TypeError ''float() argument must be a string or a real number''))"

definition seqs :: "regex list \<Rightarrow> regex" where
  "seqs rs = foldr Seq rs Eps"

definition lit :: "string \<Rightarrow> regex" where
  "lit s = seqs (map (\<lambda>c. Atom (Lit c)) s)"

definition sep :: "regex" where
  \<comment> \<open>\<open>\s*[:\-]?\s*\<close>\<close>
  "sep = seqs [Star Space, Opt (Atom (OneOf '':-'')), Star Space]"

definition abbr_sep :: "regex" where
  \<comment> \<open>\<open>[:\-]?\s*\<close>\<close>
  "abbr_sep = seqs [Opt (Atom (OneOf '':-'')), Star Space]"

definition num :: "regex" where
  \<comment> \<open>\<open>\d+\.?\d*\<close>\<close>
  "num = seqs [Plus Digit, Opt (Atom (Lit CHR ''.'')), Star Digit]"

section \<open>Parsed pages\<close>

text \<open>
  What the scraper reads of a parsed page (a \<open>BeautifulSoup\<close> object): its \<open>a\<close>
  elements that carry an \<open>href\<close> attribute, in document order (\<open>find_all('a', href=pattern)\<close>
  selects among these), its text (\<open>soup.get_text()\<close>) and the text of the first
  \<open>div\<close> whose class matches \<open>allergen\<close>, when there is one
  (\<open>soup.find('div', class_=re.compile(r'allergen', re.I))\<close>).  Of an \<open>a\<close> element: its
  \<open>href\<close> and \<open>title\<close> attributes, its text (\<open>get_text(strip=True)\<close>) and the
  elements that successive calls of \<open>find_next()\<close> reach from it; of each of those, its
  tag name, its classes (\<open>get('class', [])\<close>) and its text (\<open>get_text(strip=True)\<close>).
\<close>

record element =
  el_name :: string
  el_class :: "string list"
  el_text :: string

record anchor =
  href :: string
  title :: "string option"
  link_text :: string
  next_elements :: "element list"

record soup =
  anchors :: "anchor list"
  get_text :: string
  allergen_div :: "string option"

section \<open>The scraper, the network and the run\<close>

record scraper =
  base_url :: string
  menu_base :: string
  max_items_per_meal :: int
  request_delay :: pyfloat
  max_retries :: int
  retry_delay :: int

record environ =
  MAX_ITEMS_PER_MEAL :: "string option"
  SCRAPER_DELAY :: "string option"

definition getenv :: "string option \<Rightarrow> string \<Rightarrow> string" where
  \<comment> \<open>\<open>os.getenv(key, default)\<close>, the variable's value given\<close>
  "getenv var dflt = (case var of None \<Rightarrow> dflt | Some v \<Rightarrow> v)"

definition init :: "environ \<Rightarrow> int option \<Rightarrow> exn + scraper" where
  \<comment> \<open>\<open>VTDiningScraper.__init__\<close>; \<open>x or y\<close> is \<open>y\<close> when \<open>x\<close> is \<open>None\<close> or \<open>0\<close>\<close>
  "init env arg =
     (case (case arg of
              Some n \<Rightarrow> if n \<noteq> 0 then Inr n else py_int (getenv (MAX_ITEMS_PER_MEAL env) ''10'')
            | None \<Rightarrow> py_int (getenv (MAX_ITEMS_PER_MEAL env) ''10'')) of
        Inl e \<Rightarrow> Inl e
      | Inr m \<Rightarrow>
          (case py_float (getenv (SCRAPER_DELAY env) ''1.0'') of
             Inl e \<Rightarrow> Inl e
           | Inr d \<Rightarrow>
               Inr \<lparr> base_url = ''https://foodpro.students.vt.edu'',
                     menu_base = ''https://foodpro.students.vt.edu/menus'',
                     max_items_per_meal = m,
                     request_delay = d,
                     max_retries = 3,
                     retry_delay = 2 \<rparr>))"

text \<open>
  A response is what parsing its content gives: a parsed page, or the exception that
  \<open>BeautifulSoup(response.content, 'html.parser')\<close> raises.  The network answers the
  \<open>k\<close>-th request of a run (counted from 0) for a URL with a response, or with the text
  of the \<open>RequestException\<close> that \<open>session.get\<close> or \<open>raise_for_status\<close> raises.
  The state of a run is the list of the URLs requested and the list of the delays slept.
\<close>

type_synonym response = "exn + soup"

type_synonym world = "nat \<Rightarrow> string \<Rightarrow> string + response"

record run_state =
  requested :: "string list"
  slept :: "pyfloat list"

fun request_loop ::
  "scraper \<Rightarrow> world \<Rightarrow> string \<Rightarrow> int \<Rightarrow> nat \<Rightarrow> nat \<Rightarrow> run_state
     \<Rightarrow> (exn + response option) \<times> run_state" where
  \<comment> \<open>\<open>for attempt in range(retries + 1)\<close>, from \<open>attempt\<close> on, with the number of
      iterations left; a loop that ends without \<open>return\<close> gives \<open>None\<close>\<close>
  "request_loop self w url retries attempt 0 s = (Inr None, s)"
| "request_loop self w url retries attempt (Suc n) s =
     (let s1 = s\<lparr>requested := requested s @ [url]\<rparr> in
      case w (length (requested s)) url of
        Inr response \<Rightarrow> (Inr (Some response), s1)
      | Inl msg \<Rightarrow>
          if int attempt < retries then
            (let secs = Fin (of_int (retry_delay self * (int attempt + 1))) in
             case time_sleep secs of
               Some e \<Rightarrow> (Inl e, s1)
             | None \<Rightarrow>
                 request_loop self w url retries (Suc attempt) n
                   (s1\<lparr>slept := slept s1 @ [secs]\<rparr>))
          else (Inr None, s1))"

definition make_request ::
  "scraper \<Rightarrow> world \<Rightarrow> string \<Rightarrow> int option \<Rightarrow> run_state
     \<Rightarrow> (exn + response option) \<times> run_state" where
  "make_request self w url retries s =
     (let r = (case retries of None \<Rightarrow> max_retries self | Some r \<Rightarrow> r)
      in request_loop self w url r 0 (nat (r + 1)) s)"

section \<open>Hall discovery\<close>

record named =
  name :: string
  url :: string

record hall = named +
  location_num :: string

definition get_fallback_dining_halls :: "scraper \<Rightarrow> hall list" where
  "get_fallback_dining_halls self =
     [\<lparr> name = ''D2 at Dietrick Hall'',
         url = base_url self @ ''/menus/MenuAtLocation.aspx?locationNum=15&naFlag=1'',
         location_num = ''15'' \<rparr>,
      \<lparr> name = ''Food Court / Hokie Grill at Owens'',
         url = base_url self @ ''/menus/MenuAtLocation.aspx?locationNum=09&naFlag=1'',
         location_num = ''09'' \<rparr>,
      \<lparr> name = ''Turner Place at Lavery Hall'',
         url = base_url self @ ''/menus/MenuAtLocation.aspx?locationNum=14&naFlag=1'',
         location_num = ''14'' \<rparr>,
      \<lparr> name = ''West End at Cochrane Hall'',
         url = base_url self @ ''/menus/MenuAtLocation.aspx?locationNum=16&naFlag=1'',
         location_num = ''16'' \<rparr>]"

definition find_all_a :: "regex \<Rightarrow> soup \<Rightarrow> anchor list" where
  \<comment> \<open>\<open>soup.find_all('a', href=re.compile(pattern))\<close>\<close>
  "find_all_a pattern sp = filter (\<lambda>a. re_search False pattern (href a) \<noteq> None) (anchors sp)"

definition hall_link_pattern :: regex where
  \<comment> \<open>\<open>MenuAtLocation\.aspx\?locationNum=\<close>\<close>
  "hall_link_pattern = lit ''MenuAtLocation.aspx?locationNum=''"

definition location_pattern :: regex where
  \<comment> \<open>\<open>locationNum=([^&]+)\<close>\<close>
  "location_pattern = seqs [lit ''locationNum='', Group (Plus (NoneOf ''&''))]"

definition group_text :: "mstate \<Rightarrow> string" where
  \<comment> \<open>\<open>match.group(1)\<close> of a pattern whose group 1 is part of every match\<close>
  "group_text m = (case snd m of Some g \<Rightarrow> g | None \<Rightarrow> [])"

definition hall_of_link :: "scraper \<Rightarrow> anchor \<Rightarrow> hall list" where
  \<comment> \<open>the body of the loop over \<open>hall_links\<close>: the halls it appends\<close>
  "hall_of_link self link =
     (let hr = href link;
          ttl = py_strip (case title link of None \<Rightarrow> [] | Some t \<Rightarrow> t)
      in if ttl \<noteq> [] \<and> hr \<noteq> [] then
           (case re_search False location_pattern hr of
              Some location_match \<Rightarrow>
                [\<lparr> name = ttl,
                    url = base_url self @ ''/menus/'' @ hr,
                    location_num = group_text location_match \<rparr>]
            | None \<Rightarrow> [])
         else [])"

definition discover_dining_halls :: "scraper \<Rightarrow> world \<Rightarrow> run_state \<Rightarrow> hall list \<times> run_state" where
  "discover_dining_halls self w s =
     (case make_request self w (menu_base self @ ''/'') None s of
        (Inl e, s1) \<Rightarrow> (get_fallback_dining_halls self, s1)
      | (Inr None, s1) \<Rightarrow> (get_fallback_dining_halls self, s1)
      | (Inr (Some (Inl e)), s1) \<Rightarrow> (get_fallback_dining_halls self, s1)
      | (Inr (Some (Inr sp)), s1) \<Rightarrow>
          (let dining_halls = concat (map (hall_of_link self) (find_all_a hall_link_pattern sp))
           in (if dining_halls \<noteq> [] then dining_halls else get_fallback_dining_halls self, s1)))"

section \<open>Menu extraction: the meal period of a recipe identifier\<close>

definition meal_period_map :: "string \<Rightarrow> string" where
  \<comment> \<open>\<open>meal_period_map.get(meal_period, meal_period)\<close>\<close>
  "meal_period_map p =
     (if p = ''breakfast'' then ''breakfast''
      else if p = ''lunch'' then ''lunch''
      else if p = ''dinner'' then ''dinner''
      else if p = ''brunch'' then ''brunch''
      else if p = ''late night'' then ''late_night''
      else p)"

definition extract_meal_period :: "string \<Rightarrow> string option" where
  "extract_meal_period recipe_text =
     (if CHR ''*'' \<in> set recipe_text then
        (let parts = py_split recipe_text ''*'' in
         if length parts \<ge> 4
         then Some (meal_period_map (py_strip (py_lower (last parts))))
         else None)
      else None)"

section \<open>Nutrition extraction: allergens and dietary tags\<close>

definition allergen_keywords :: "(string \<times> string list) list" where
  "allergen_keywords =
     [(''milk'', [''milk'', ''dairy'', ''lactose'']),
      (''eggs'', [''egg'', ''eggs'']),
      (''fish'', [''fish'']),
      (''shellfish'', [''shellfish'', ''shrimp'', ''crab'', ''lobster'']),
      (''tree_nuts'', [''tree nuts'', ''almonds'', ''walnuts'', ''pecans'', ''cashews'']),
      (''peanuts'', [''peanuts'', ''peanut'']),
      (''wheat'', [''wheat'', ''gluten'']),
      (''soybeans'', [''soy'', ''soybeans'', ''soybean''])]"

definition parse_allergen_text :: "string \<Rightarrow> string list" where
  "parse_allergen_text text =
     (let text_lower = py_lower text in
      map fst (filter (\<lambda>(allergen, keywords). \<exists>keyword \<in> set keywords. str_in keyword text_lower)
                 allergen_keywords))"

definition section_after :: "string \<Rightarrow> string \<Rightarrow> string" where
  \<comment> \<open>\<open>page_text.split(marker)[1].split('.')[0]\<close>, called only when the marker occurs\<close>
  "section_after page_text marker = hd (py_split (py_split page_text marker ! 1) ''.'')"

definition extract_allergens :: "soup \<Rightarrow> string list" where
  \<comment> \<open>\<open>list(set(allergens))\<close>: Python fixes no order for the result; the model keeps
      the order of first occurrence\<close>
  "extract_allergens soup =
     remdups
       (case allergen_div soup of
          Some allergen_text \<Rightarrow> parse_allergen_text allergen_text
        | None \<Rightarrow>
            (let page_text = py_lower (get_text soup) in
             (if str_in ''contains:'' page_text
              then parse_allergen_text (section_after page_text ''contains:'') else [])
             @ (if str_in ''allergens:'' page_text
                then parse_allergen_text (section_after page_text ''allergens:'') else [])))"

definition dietary_indicators :: "(string \<times> string list) list" where
  "dietary_indicators =
     [(''vegetarian'', [''vegetarian'', ''veggie'']),
      (''vegan'', [''vegan'']),
      (''halal'', [''halal'']),
      (''kosher'', [''kosher'']),
      (''organic'', [''organic'']),
      (''low_sodium'', [''low sodium'', ''reduced sodium'']),
      (''whole_grain'', [''whole grain'', ''whole wheat''])]"

definition extract_dietary_tags :: "string list \<Rightarrow> soup option \<Rightarrow> string list" where
  \<comment> \<open>\<open>list(set(tags))\<close>, in the order of first occurrence\<close>
  "extract_dietary_tags allergens soup =
     (let allergen_list = map py_lower allergens in
      remdups
        ((if ''milk'' \<notin> set allergen_list \<and> ''eggs'' \<notin> set allergen_list
          then (if \<not> (\<exists>animal \<in> set [''fish'', ''shellfish'']. animal \<in> set allergen_list)
                then [''potentially_vegan''] else [])
          else [])
         @ (if ''milk'' \<notin> set allergen_list then [''dairy_free''] else [])
         @ (if ''wheat'' \<notin> set allergen_list then [''gluten_free''] else [])
         @ (if ''peanuts'' \<notin> set allergen_list \<and> ''tree_nuts'' \<notin> set allergen_list
            then [''nut_free''] else [])
         @ (case soup of
              None \<Rightarrow> []
            | Some sp \<Rightarrow>
                (let page_text = py_lower (get_text sp) in
                 map fst (filter (\<lambda>(tag, indicators). \<exists>indicator \<in> set indicators.
                                     str_in indicator page_text)
                            dietary_indicators)))))"

section \<open>Menu extraction: the items of a hall page\<close>

datatype jvalue = JInt int | JFloat pyfloat | JStr string | JList "string list"

type_synonym nutrition = "(string \<times> jvalue) list"

record item = named +
  recipe_id :: string
  nutrition :: "nutrition option"

type_synonym meal_data = "(string \<times> item list) list"

fun find_next_loop :: "nat \<Rightarrow> element list \<Rightarrow> element option" where
  \<comment> \<open>\<open>for _ in range(10)\<close> with the iterations left, over the elements that
      \<open>find_next()\<close> reaches; the loop breaks when there is none\<close>
  "find_next_loop 0 es = None"
| "find_next_loop (Suc n) [] = None"
| "find_next_loop (Suc n) (current_element # es) =
     (if el_name current_element = ''div''
         \<and> ''report_recipe_identifier'' \<in> set (el_class current_element)
      then Some current_element
      else find_next_loop n es)"

definition find_recipe_identifier :: "anchor \<Rightarrow> element option" where
  "find_recipe_identifier link = find_next_loop 10 (next_elements link)"

definition dict_append :: "meal_data \<Rightarrow> string \<Rightarrow> item \<Rightarrow> meal_data" where
  \<comment> \<open>\<open>if k not in d: d[k] = []\<close> and then \<open>d[k].append(v)\<close>\<close>
  "dict_append d k v =
     (if k \<in> set (map fst d)
      then map (\<lambda>(k', vs). if k' = k then (k', vs @ [v]) else (k', vs)) d
      else d @ [(k, [v])])"

definition label_link_pattern :: regex where
  \<comment> \<open>\<open>label\.aspx\<close>\<close>
  "label_link_pattern = lit ''label.aspx''"

fun food_links_loop :: "scraper \<Rightarrow> anchor list \<Rightarrow> meal_data \<Rightarrow> meal_data" where
  "food_links_loop self [] meal_data = meal_data"
| "food_links_loop self (link # links) meal_data =
     (let item_name = link_text link; item_url = href link in
      if item_name = [] then food_links_loop self links meal_data
      else
        (case find_recipe_identifier link of
           None \<Rightarrow> food_links_loop self links meal_data
         | Some recipe_div \<Rightarrow>
             (let recipe_text = el_text recipe_div in
              case extract_meal_period recipe_text of
                None \<Rightarrow> food_links_loop self links meal_data
              | Some meal_period \<Rightarrow>
                  if meal_period = [] then food_links_loop self links meal_data
                  else
                    (let full_url =
                           (if \<not> startswith item_url ''http''
                            then base_url self @ ''/menus/'' @ item_url else item_url)
                     in food_links_loop self links
                          (dict_append meal_data meal_period
                             \<lparr> name = item_name, url = full_url,
                               recipe_id = recipe_text, nutrition = None \<rparr>)))))"

definition get_meal_periods_and_categories ::
  "scraper \<Rightarrow> world \<Rightarrow> string \<Rightarrow> run_state \<Rightarrow> meal_data \<times> run_state" where
  "get_meal_periods_and_categories self w dining_hall_url s =
     (case make_request self w dining_hall_url None s of
        (Inl e, s1) \<Rightarrow> ([], s1)
      | (Inr None, s1) \<Rightarrow> ([], s1)
      | (Inr (Some (Inl e)), s1) \<Rightarrow> ([], s1)
      | (Inr (Some (Inr sp)), s1) \<Rightarrow>
          (food_links_loop self (find_all_a label_link_pattern sp) [], s1))"

section \<open>Nutrition extraction: the item page\<close>

definition labelled :: "regex \<Rightarrow> string \<Rightarrow> regex" where
  \<comment> \<open>\<open>label\s*[:\-]?\s*(\d+\.?\d*)\s*unit\<close>\<close>
  "labelled label unit = seqs [label, sep, Group num, Star Space, lit unit]"

definition unit_first :: "string \<Rightarrow> string \<Rightarrow> regex" where
  \<comment> \<open>\<open>(\d+\.?\d*)\s*unit\s*word\<close>\<close>
  "unit_first unit word = seqs [Group num, Star Space, lit unit, Star Space, lit word]"

definition abbreviated :: "string \<Rightarrow> string \<Rightarrow> regex" where
  \<comment> \<open>\<open>word[:\-]?\s*(\d+\.?\d*)\s*unit\<close>\<close>
  "abbreviated word unit = seqs [lit word, abbr_sep, Group num, Star Space, lit unit]"

definition total_opt :: regex where
  \<comment> \<open>\<open>(?:total\s+)?\<close>\<close>
  "total_opt = Opt (seqs [lit ''total'', Plus Space])"

definition plural :: "string \<Rightarrow> regex" where
  \<comment> \<open>\<open>words?\<close>\<close>
  "plural word = seqs [lit word, Opt (Atom (Lit CHR ''s''))]"

definition patterns :: "(string \<times> regex list) list" where
  "patterns =
     [(''calories'',
         [seqs [plural ''calorie'', sep, Group (Plus Digit)],
          seqs [Group (Plus Digit), Star Space, plural ''calorie''],
          seqs [lit ''cal'', abbr_sep, Group (Plus Digit)]]),
      (''protein'',
         [labelled (lit ''protein'') ''g'',
          unit_first ''g'' ''protein'',
          abbreviated ''prot'' ''g'']),
      (''carbs'',
         [labelled (seqs [total_opt, lit ''carbohydrate'']) ''g'',
          labelled (plural ''carb'') ''g'',
          unit_first ''g'' ''carb'']),
      (''fat'',
         [labelled (seqs [total_opt, lit ''fat'']) ''g'',
          unit_first ''g'' ''fat'',
          abbreviated ''fat'' ''g'']),
      (''fiber'',
         [labelled (seqs [lit ''dietary'', Plus Space, lit ''fiber'']) ''g'',
          labelled (lit ''fiber'') ''g'',
          unit_first ''g'' ''fiber'']),
      (''sodium'',
         [labelled (lit ''sodium'') ''mg'',
          unit_first ''mg'' ''sodium'',
          labelled (lit ''salt'') ''mg'']),
      (''sugars'',
         [labelled (seqs [total_opt, plural ''sugar'']) ''g'',
          unit_first ''g'' ''sugar'',
          abbreviated ''sugar'' ''g''])]"

definition parse_value :: "string \<Rightarrow> mstate \<Rightarrow> exn + jvalue" where
  \<comment> \<open>\<open>value = float(match.group(1))\<close>, then \<open>int(value)\<close> for the calories and
      \<open>round(value, 1)\<close> for the others\<close>
  "parse_value nutrient m =
     (case group1 m of
        Inl e \<Rightarrow> Inl e
      | Inr g \<Rightarrow>
          (case py_float g of
             Inl e \<Rightarrow> Inl e
           | Inr v \<Rightarrow>
               if nutrient = ''calories''
               then (case py_int_of_float v of Inl e \<Rightarrow> Inl e | Inr n \<Rightarrow> Inr (JInt n))
               else Inr (JFloat (py_round1 v))))"

fun try_patterns :: "string \<Rightarrow> regex list \<Rightarrow> string \<Rightarrow> exn + jvalue option" where
  \<comment> \<open>the loop over \<open>pattern_list\<close>: a ValueError goes on with the next pattern
      (\<open>continue\<close>), a value ends the loop (\<open>break\<close>), any other exception leaves it\<close>
  "try_patterns nutrient [] page_text = Inr None"
| "try_patterns nutrient (pattern # pattern_list) page_text =
     (case re_search True pattern page_text of
        None \<Rightarrow> try_patterns nutrient pattern_list page_text
      | Some m \<Rightarrow>
          (case parse_value nutrient m of
             Inl (ValueError msg) \<Rightarrow> try_patterns nutrient pattern_list page_text
           | Inl e \<Rightarrow> Inl e
           | Inr v \<Rightarrow> Inr (Some v)))"

fun nutrients_loop :: "(string \<times> regex list) list \<Rightarrow> string \<Rightarrow> nutrition \<Rightarrow> exn + nutrition" where
  "nutrients_loop [] page_text nutr = Inr nutr"
| "nutrients_loop ((nutrient, pattern_list) # rest) page_text nutr =
     (case try_patterns nutrient pattern_list page_text of
        Inl e \<Rightarrow> Inl e
      | Inr None \<Rightarrow> nutrients_loop rest page_text nutr
      | Inr (Some v) \<Rightarrow> nutrients_loop rest page_text (nutr @ [(nutrient, v)]))"

definition serving_patterns :: "regex list" where
  "serving_patterns =
     [seqs [lit ''serving'', Star Space, lit ''size'', sep, Group (Plus (NoneOf [CHR '','', CHR 0x0A]))],
      seqs [lit ''portion'', sep, Group (Plus (NoneOf [CHR '','', CHR 0x0A]))],
      seqs [lit ''size'', sep,
            Group (seqs [num, Star Space,
                         Alt (lit ''oz'') (Alt (lit ''g'') (Alt (lit ''ml'')
                           (Alt (lit ''cup'') (lit ''piece''))))])]]"

fun serving_loop :: "regex list \<Rightarrow> string \<Rightarrow> string option" where
  "serving_loop [] page_text = None"
| "serving_loop (pattern # rest) page_text =
     (case re_search True pattern page_text of
        Some m \<Rightarrow> Some (py_strip (group_text m))
      | None \<Rightarrow> serving_loop rest page_text)"

definition extract_serving_size :: "string \<Rightarrow> string option" where
  "extract_serving_size page_text = serving_loop serving_patterns page_text"

definition nutrition_of_soup :: "soup \<Rightarrow> exn + nutrition" where
  \<comment> \<open>\<open>get_nutrition_from_item_page\<close> from the parsed page on\<close>
  "nutrition_of_soup sp =
     (let page_text = get_text sp in
      case nutrients_loop patterns page_text [] of
        Inl e \<Rightarrow> Inl e
      | Inr nutr \<Rightarrow>
          (let allergens = extract_allergens sp;
               nutr1 = nutr @ [(''allergens'', JList allergens),
                               (''dietary_tags'', JList (extract_dietary_tags allergens (Some sp)))]
           in case extract_serving_size page_text of
                None \<Rightarrow> Inr nutr1
              | Some serving_size \<Rightarrow>
                  if serving_size \<noteq> [] then Inr (nutr1 @ [(''serving_size'', JStr serving_size)])
                  else Inr nutr1))"

definition get_nutrition_from_item_page ::
  "scraper \<Rightarrow> world \<Rightarrow> string \<Rightarrow> run_state \<Rightarrow> nutrition \<times> run_state" where
  "get_nutrition_from_item_page self w item_url s =
     (case make_request self w item_url None s of
        (Inl e, s1) \<Rightarrow> ([], s1)
      | (Inr None, s1) \<Rightarrow> ([], s1)
      | (Inr (Some (Inl e)), s1) \<Rightarrow> ([], s1)
      | (Inr (Some (Inr sp)), s1) \<Rightarrow>
          (case nutrition_of_soup sp of
             Inl e \<Rightarrow> ([], s1)
           | Inr nutr \<Rightarrow> (nutr, s1)))"

section \<open>The aggregator\<close>

definition py_slice_to :: "'a list \<Rightarrow> int \<Rightarrow> 'a list" where
  \<comment> \<open>\<open>xs[:n]\<close>: a negative \<open>n\<close> counts from the end\<close>
  "py_slice_to xs n = (if n \<ge> 0 then take (nat n) xs else take (nat (int (length xs) + n)) xs)"

record period_data =
  items :: "item list"
  total_available :: nat
  scraped_count :: nat

record hall_data = hall +
  meal_periods :: "(string \<times> period_data) list"
  scrape_status :: string
  items_scraped :: "nat option"
  error :: "string option"

record scraper_config =
  config_max_items_per_meal :: int
  config_request_delay :: pyfloat

record scrape_summary =
  total_halls :: nat
  successful_halls :: nat
  failed_halls :: int
  total_items_scraped :: nat

record snapshot =
  dining_halls :: "hall_data list"
  config :: scraper_config
  summary :: scrape_summary

text \<open>
  The snapshot of the model leaves out the two readings of the clock (\<open>last_updated\<close> and
  \<open>scrape_duration\<close>); writing the snapshot to \<open>vt_dining_data.json\<close> changes neither
  the snapshot returned nor the run (a failure to write is logged and swallowed).
  The counters of a run are \<open>(hall_items_count, total_items_scraped)\<close>.
\<close>

type_synonym counters = "nat \<times> nat"

fun items_loop ::
  "scraper \<Rightarrow> world \<Rightarrow> item list \<Rightarrow> item list \<Rightarrow> counters \<Rightarrow> run_state
     \<Rightarrow> (exn + item list) \<times> counters \<times> run_state" where
  \<comment> \<open>\<open>for i, item in enumerate(limited_items)\<close>, with \<open>items_with_nutrition\<close> so far\<close>
  "items_loop self w [] items_with_nutrition cnt s = (Inr items_with_nutrition, cnt, s)"
| "items_loop self w (it # rest) items_with_nutrition cnt s =
     (case get_nutrition_from_item_page self w (url it) s of
        (nutr, s1) \<Rightarrow>
          (let it' = it\<lparr>nutrition := Some nutr\<rparr>;
               cnt' = (fst cnt + 1, snd cnt + 1)
           in case time_sleep (request_delay self) of
                Some e \<Rightarrow> (Inl e, cnt', s1)
              | None \<Rightarrow>
                  items_loop self w rest (items_with_nutrition @ [it']) cnt'
                    (s1\<lparr>slept := slept s1 @ [request_delay self]\<rparr>)))"

definition dict_set :: "('k \<times> 'v) list \<Rightarrow> 'k \<Rightarrow> 'v \<Rightarrow> ('k \<times> 'v) list" where
  \<comment> \<open>\<open>d[k] = v\<close>\<close>
  "dict_set d k v =
     (if k \<in> set (map fst d)
      then map (\<lambda>(k', v'). if k' = k then (k', v) else (k', v')) d
      else d @ [(k, v)])"

fun meals_loop ::
  "scraper \<Rightarrow> world \<Rightarrow> meal_data \<Rightarrow> (string \<times> period_data) list \<Rightarrow> counters \<Rightarrow> run_state
     \<Rightarrow> exn option \<times> (string \<times> period_data) list \<times> counters \<times> run_state" where
  \<comment> \<open>\<open>for meal_period, items in meal_data.items()\<close>, with \<open>hall_data['meal_periods']\<close>
      so far; the exception that ends the loop, if any\<close>
  "meals_loop self w [] periods cnt s = (None, periods, cnt, s)"
| "meals_loop self w ((meal_period, its) # rest) periods cnt s =
     (let limited_items = py_slice_to its (max_items_per_meal self) in
      case items_loop self w limited_items [] cnt s of
        (Inl e, cnt', s') \<Rightarrow> (Some e, periods, cnt', s')
      | (Inr items_with_nutrition, cnt', s') \<Rightarrow>
          meals_loop self w rest
            (dict_set periods meal_period
               \<lparr> items = items_with_nutrition,
                 total_available = length its,
                 scraped_count = length items_with_nutrition \<rparr>)
            cnt' s')"

definition scrape_hall ::
  "scraper \<Rightarrow> world \<Rightarrow> hall \<Rightarrow> nat \<Rightarrow> run_state
     \<Rightarrow> exn option \<times> hall_data \<times> nat \<times> run_state" where
  \<comment> \<open>the body of \<open>for hall in dining_halls\<close>: the exception caught, if any, the record
      appended, \<open>total_items_scraped\<close> and the run afterwards\<close>
  "scrape_hall self w h total_items s =
     (case get_meal_periods_and_categories self w (url h) s of
        (meal_data, s1) \<Rightarrow>
          (case meals_loop self w meal_data [] (0, total_items) s1 of
             (None, periods, cnt, s2) \<Rightarrow>
               (None,
                \<lparr> name = name h, url = url h, location_num = location_num h,
                  meal_periods = periods, scrape_status = ''completed'',
                  items_scraped = Some (fst cnt), error = None \<rparr>,
                snd cnt, s2)
           | (Some e, periods, cnt, s2) \<Rightarrow>
               (Some e,
                \<lparr> name = name h, url = url h, location_num = location_num h,
                  meal_periods = periods, scrape_status = ''failed'',
                  items_scraped = None, error = Some (py_str e) \<rparr>,
                snd cnt, s2)))"

fun halls_loop ::
  "scraper \<Rightarrow> world \<Rightarrow> hall list \<Rightarrow> hall_data list \<Rightarrow> nat \<Rightarrow> nat \<Rightarrow> run_state
     \<Rightarrow> hall_data list \<times> nat \<times> nat \<times> run_state" where
  \<comment> \<open>\<open>for hall in dining_halls\<close>, with \<open>all_data['dining_halls']\<close>, \<open>successful_halls\<close>
      and \<open>total_items_scraped\<close> so far\<close>
  "halls_loop self w [] acc successful total_items s = (acc, successful, total_items, s)"
| "halls_loop self w (h # rest) acc successful total_items s =
     (case scrape_hall self w h total_items s of
        (None, hrec, total_items', s') \<Rightarrow>
          halls_loop self w rest (acc @ [hrec]) (successful + 1) total_items' s'
      | (Some e, hrec, total_items', s') \<Rightarrow>
          halls_loop self w rest (acc @ [hrec]) successful total_items' s')"

definition scrape_all_data :: "scraper \<Rightarrow> world \<Rightarrow> run_state \<Rightarrow> snapshot \<times> run_state" where
  "scrape_all_data self w s =
     (case discover_dining_halls self w s of
        (halls, s1) \<Rightarrow>
          (case halls_loop self w halls [] 0 0 s1 of
             (hall_records, successful, total_items, s2) \<Rightarrow>
               (\<lparr> dining_halls = hall_records,
                  config = \<lparr> config_max_items_per_meal = max_items_per_meal self,
                             config_request_delay = request_delay self \<rparr>,
                  summary = \<lparr> total_halls = length halls,
                              successful_halls = successful,
                              failed_halls = int (length halls) - int successful,
                              total_items_scraped = total_items \<rparr> \<rparr>,
                s2)))"

section \<open>The digest of the available foods for the AI prompt\<close>

definition upper_char :: "char \<Rightarrow> char" where
  "upper_char c =
     (case map_of (zip ''abcdefghijklmnopqrstuvwxyz'' ''ABCDEFGHIJKLMNOPQRSTUVWXYZ'') c of
        Some u \<Rightarrow> u
      | None \<Rightarrow> c)"

fun title_from :: "bool \<Rightarrow> string \<Rightarrow> string" where
  \<comment> \<open>\<open>s.title()\<close> from a position on; the flag: the character before is a letter\<close>
  "title_from prev [] = []"
| "title_from prev (c # cs) =
     (if lower_char c \<noteq> c \<or> upper_char c \<noteq> c
      then (if prev then lower_char c else upper_char c) # title_from True cs
      else c # title_from False cs)"

definition py_title :: "string \<Rightarrow> string" where
  "py_title s = title_from False s"

function digits_of :: "nat \<Rightarrow> string" where
  "digits_of n =
     (if n < 10 then [''0123456789'' ! n]
      else digits_of (n div 10) @ [''0123456789'' ! (n mod 10)])"
  by pat_completeness auto
termination
  by (relation "measure (\<lambda>n. n)") auto

definition str_of_int :: "int \<Rightarrow> string" where
  \<comment> \<open>\<open>str(n)\<close> for an integer\<close>
  "str_of_int n = (if n < 0 then ''-'' @ digits_of (nat (- n)) else digits_of (nat n))"

fun py_join :: "string \<Rightarrow> string list \<Rightarrow> string" where
  \<comment> \<open>\<open>sep.join(xs)\<close>\<close>
  "py_join sp [] = []"
| "py_join sp [x] = x"
| "py_join sp (x # y # ys) = x @ sp @ py_join sp (y # ys)"

text \<open>
  How an f-string prints a value of the snapshot.  The text of a float (\<open>repr\<close>, the
  shortest decimal that reads back as the same float) is a parameter \<open>frepr\<close> of the model.
\<close>

definition py_format :: "(pyfloat \<Rightarrow> string) \<Rightarrow> jvalue \<Rightarrow> string" where
  "py_format frepr v =
     (case v of
        JInt n \<Rightarrow> str_of_int n
      | JFloat x \<Rightarrow> frepr x
      | JStr t \<Rightarrow> t
      | JList xs \<Rightarrow> ''['' @ py_join '', '' (map quoted xs) @ '']'')"

definition get_or_zero :: "nutrition \<Rightarrow> string \<Rightarrow> jvalue" where
  \<comment> \<open>\<open>nutrition.get(key, 0)\<close>\<close>
  "get_or_zero nutr key = (case map_of nutr key of Some v \<Rightarrow> v | None \<Rightarrow> JInt 0)"

definition less_than_50 :: "jvalue \<Rightarrow> exn + bool" where
  \<comment> \<open>\<open>calories < 50\<close>: numbers compare, other values raise\<close>
  "less_than_50 v =
     (case v of
        JInt n \<Rightarrow> Inr (n < 50)
      | JFloat (Fin q) \<Rightarrow> Inr (q < 50)
      | JFloat NInf \<Rightarrow> Inr True
      | JFloat PInf \<Rightarrow> Inr False
      | JFloat NaN \<Rightarrow> Inr False
      | _ \<Rightarrow> Inl (TypeError ''< not supported between these instances''))"

definition any_word_in :: "string list \<Rightarrow> string \<Rightarrow> bool" where
  \<comment> \<open>\<open>any(word in name_lower for word in words)\<close>\<close>
  "any_word_in ws name_lower = list_ex (\<lambda>word. str_in word name_lower) ws"

definition skip_words :: "string list" where
  "skip_words = [''cereal'', ''milk'', ''juice'', ''dispenser'']"

definition protein_words :: "string list" where
  "protein_words =
     [''chicken'', ''beef'', ''fish'', ''wrap'', ''sandwich'', ''panini'', ''burger'', ''egg'']"

definition carb_words :: "string list" where
  "carb_words = [''bagel'', ''bread'', ''rice'', ''pasta'', ''potato'']"

definition food_line :: "(pyfloat \<Rightarrow> string) \<Rightarrow> string \<Rightarrow> string \<Rightarrow> item \<Rightarrow> string" where
  "food_line frepr hall_name meal_period it =
     (let nutr = (case nutrition it of Some n \<Rightarrow> n | None \<Rightarrow> []) in
      name it @ '' ('' @ hall_name @ '', '' @ py_title meal_period @ '') - ''
      @ ''Cal: '' @ py_format frepr (get_or_zero nutr ''calories'')
      @ '', P: '' @ py_format frepr (get_or_zero nutr ''protein'') @ ''g, ''
      @ ''C: '' @ py_format frepr (get_or_zero nutr ''carbs'')
      @ ''g, F: '' @ py_format frepr (get_or_zero nutr ''fat'') @ ''g'')"

type_synonym food_lists = "string list \<times> string list \<times> string list"

fun ai_items_loop ::
  "(pyfloat \<Rightarrow> string) \<Rightarrow> string \<Rightarrow> string \<Rightarrow> item list \<Rightarrow> food_lists \<Rightarrow> exn + food_lists" where
  \<comment> \<open>\<open>for item in items\<close>, with \<open>(proteins, carbs, other_foods)\<close> so far\<close>
  "ai_items_loop frepr hall_name meal_period [] acc = Inr acc"
| "ai_items_loop frepr hall_name meal_period (it # rest) (proteins, carbs, other_foods) =
     (let nutr = (case nutrition it of Some n \<Rightarrow> n | None \<Rightarrow> []);
          calories = get_or_zero nutr ''calories''
      in case less_than_50 calories of
           Inl e \<Rightarrow> Inl e
         | Inr True \<Rightarrow> ai_items_loop frepr hall_name meal_period rest (proteins, carbs, other_foods)
         | Inr False \<Rightarrow>
             (let name_lower = py_lower (name it);
                  line = food_line frepr hall_name meal_period it
              in if any_word_in skip_words name_lower
                 then ai_items_loop frepr hall_name meal_period rest (proteins, carbs, other_foods)
                 else if any_word_in protein_words name_lower
                 then ai_items_loop frepr hall_name meal_period rest
                        (proteins @ [line], carbs, other_foods)
                 else if any_word_in carb_words name_lower
                 then ai_items_loop frepr hall_name meal_period rest
                        (proteins, carbs @ [line], other_foods)
                 else ai_items_loop frepr hall_name meal_period rest
                        (proteins, carbs, other_foods @ [line])))"

fun ai_periods_loop ::
  "(pyfloat \<Rightarrow> string) \<Rightarrow> string \<Rightarrow> (string \<times> period_data) list \<Rightarrow> food_lists
     \<Rightarrow> exn + food_lists" where
  "ai_periods_loop frepr hall_name [] acc = Inr acc"
| "ai_periods_loop frepr hall_name ((meal_period, pd) # rest) acc =
     (case ai_items_loop frepr hall_name meal_period (items pd) acc of
        Inl e \<Rightarrow> Inl e
      | Inr acc' \<Rightarrow> ai_periods_loop frepr hall_name rest acc')"

fun ai_halls_loop ::
  "(pyfloat \<Rightarrow> string) \<Rightarrow> hall_data list \<Rightarrow> food_lists \<Rightarrow> exn + food_lists" where
  "ai_halls_loop frepr [] acc = Inr acc"
| "ai_halls_loop frepr (h # rest) acc =
     (case ai_periods_loop frepr (name h) (meal_periods h) acc of
        Inl e \<Rightarrow> Inl e
      | Inr acc' \<Rightarrow> ai_halls_loop frepr rest acc')"

definition all_foods :: "(pyfloat \<Rightarrow> string) \<Rightarrow> snapshot \<Rightarrow> exn + string list" where
  \<comment> \<open>the list \<open>all_foods\<close> of \<open>format_foods_for_ai\<close>\<close>
  "all_foods frepr menu_data =
     (case ai_halls_loop frepr (dining_halls menu_data) ([], [], []) of
        Inl e \<Rightarrow> Inl e
      | Inr (proteins, carbs, other_foods) \<Rightarrow>
          Inr (take 80 proteins @ take 40 carbs @ take 30 other_foods))"

definition format_foods_for_ai :: "(pyfloat \<Rightarrow> string) \<Rightarrow> snapshot \<Rightarrow> exn + string" where
  "format_foods_for_ai frepr menu_data =
     (case all_foods frepr menu_data of
        Inl e \<Rightarrow> Inl e
      | Inr lines \<Rightarrow> Inr (py_join [CHR 0x0A] lines))"

section \<open>Properties of the records of a snapshot\<close>

definition erase :: "item \<Rightarrow> item" where
  \<comment> \<open>an item without the nutrition attached to it\<close>
  "erase it = it\<lparr>nutrition := None\<rparr>"

definition period_ok :: "int \<Rightarrow> meal_data \<Rightarrow> string \<times> period_data \<Rightarrow> bool" where
  \<comment> \<open>the record of a meal period holds the items that \<open>its[:m]\<close> keeps of the list
      \<open>its\<close> extracted for the period, the length of \<open>its\<close> and the number of items kept\<close>
  "period_ok m md x =
     list_ex (\<lambda>(mp, its).
         mp = fst x
         \<and> map erase (items (snd x)) = map erase (py_slice_to its m)
         \<and> total_available (snd x) = length its
         \<and> scraped_count (snd x) = length (items (snd x))) md"

definition hall_record_ok :: "hall_data \<Rightarrow> bool" where
  \<comment> \<open>completed without error text, or failed with a non-empty error text\<close>
  "hall_record_ok hrec =
     ((scrape_status hrec = ''completed'' \<and> error hrec = None)
      \<or> (scrape_status hrec = ''failed''
          \<and> (case error hrec of Some msg \<Rightarrow> msg \<noteq> [] | None \<Rightarrow> False)))"

section \<open>Example inputs\<close>

definition default_scraper :: scraper where
  \<comment> \<open>the scraper that \<open>VTDiningScraper()\<close> builds when neither variable is set\<close>
  "default_scraper =
     \<lparr> base_url = ''https://foodpro.students.vt.edu'',
       menu_base = ''https://foodpro.students.vt.edu/menus'',
       max_items_per_meal = 10,
       request_delay = Fin 1,
       max_retries = 3,
       retry_delay = 2 \<rparr>"

definition far_marker_link :: anchor where
  \<comment> \<open>a food link whose recipe identifier is the eleventh element after it\<close>
  "far_marker_link =
     \<lparr> href = ''label.aspx?id=1'', title = None, link_text = ''Soup'',
       next_elements =
         replicate 10 \<lparr>el_name = ''span'', el_class = [], el_text = []\<rparr>
         @ [\<lparr>el_name = ''div'', el_class = [''report_recipe_identifier''],
              el_text = ''a*b*c*Lunch''\<rparr>] \<rparr>"

definition breakfast_link :: "string \<Rightarrow> string \<Rightarrow> anchor" where
  \<comment> \<open>a food link followed at once by its recipe identifier, a breakfast item\<close>
  "breakfast_link target label =
     \<lparr> href = target, title = None, link_text = label,
       next_elements =
         [\<lparr>el_name = ''div'', el_class = [''report_recipe_identifier''],
            el_text = ''1*2*3*Breakfast''\<rparr>] \<rparr>"

definition d2_page :: soup where
  "d2_page =
     \<lparr> anchors = [breakfast_link ''label.aspx?RecNumAndPort=1'' ''Scrambled Eggs'',
                  breakfast_link ''label.aspx?RecNumAndPort=2'' ''Bagel'',
                  breakfast_link ''label.aspx?RecNumAndPort=3'' ''Oatmeal''],
       get_text = ''Scrambled Eggs Bagel Oatmeal'',
       allergen_div = None \<rparr>"

definition d2_only_world :: world where
  \<comment> \<open>a network on which only the page of the first fallback hall can be fetched\<close>
  "d2_only_world k u =
     (if u = ''https://foodpro.students.vt.edu/menus/MenuAtLocation.aspx?locationNum=15&naFlag=1''
      then Inr (Inr d2_page) else Inl ''timed out'')"

definition start :: run_state where
  "start = \<lparr>requested = [], slept = []\<rparr>"

section \<open>Dietary tags of a page without allergen information\<close>

text \<open>
  C9.  When the allergen list of an item page is empty, the dietary tags derived for it
  contain \<open>dairy_free\<close>, \<open>gluten_free\<close>, \<open>nut_free\<close> and \<open>potentially_vegan\<close>, whatever
  the page (or no page) says: no allergen data gives every allergen-inferred tag.
\<close>

theorem no_allergens_all_inferred_tags:
  "{''dairy_free'', ''gluten_free'', ''nut_free'', ''potentially_vegan''}
     \<subseteq> set (extract_dietary_tags [] soup)"
  by (simp add: extract_dietary_tags_def)

section \<open>The page that contains milk and wheat\<close>

lemma parse_milk_wheat: "parse_allergen_text ''Contains: milk, wheat.'' = [''milk'', ''wheat'']"
  by code_simp

lemma page_milk_wheat:
  "py_lower ''Contains: milk, wheat.'' = ''contains: milk, wheat.''"
  "str_in ''contains:'' ''contains: milk, wheat.''"
  "\<not> str_in ''allergens:'' ''contains: milk, wheat.''"
  "parse_allergen_text (section_after ''contains: milk, wheat.'' ''contains:'') = [''milk'', ''wheat'']"
  by code_simp+

lemma lower_milk_wheat: "py_lower ''milk'' = ''milk''" "py_lower ''wheat'' = ''wheat''"
  by code_simp+

lemma indicator_tags:
  "t \<notin> set (map fst dietary_indicators) \<Longrightarrow>
   t \<notin> set (map fst (filter P dietary_indicators))"
  by auto

lemma inferred_not_indicator:
  "''gluten_free'' \<notin> set (map fst dietary_indicators)"
  "''dairy_free'' \<notin> set (map fst dietary_indicators)"
  by (simp_all add: dietary_indicators_def)

lemma allergens_milk_wheat:
  assumes "allergen_div sp = Some ''Contains: milk, wheat.''
           \<or> (allergen_div sp = None \<and> get_text sp = ''Contains: milk, wheat.'')"
  shows "extract_allergens sp = [''milk'', ''wheat'']"
  using assms
  by (auto simp add: extract_allergens_def parse_milk_wheat page_milk_wheat)

lemma tags_milk_wheat:
  "''nut_free'' \<in> set (extract_dietary_tags [''milk'', ''wheat''] (Some sp))"
  "''gluten_free'' \<notin> set (extract_dietary_tags [''milk'', ''wheat''] (Some sp))"
  "''dairy_free'' \<notin> set (extract_dietary_tags [''milk'', ''wheat''] (Some sp))"
  using indicator_tags [OF inferred_not_indicator(1)] indicator_tags [OF inferred_not_indicator(2)]
  by (simp_all add: extract_dietary_tags_def lower_milk_wheat Let_def del: set_map set_filter)

text \<open>
  C5.  A page whose allergen text is \<open>Contains: milk, wheat.\<close> (the text of its allergen
  section, or its whole text when it has no allergen section) has exactly the allergens
  \<open>milk\<close> and \<open>wheat\<close>; its dietary tags contain \<open>nut_free\<close> and contain neither
  \<open>gluten_free\<close> nor \<open>dairy_free\<close>.
\<close>

theorem contains_milk_wheat:
  assumes "allergen_div sp = Some ''Contains: milk, wheat.''
           \<or> (allergen_div sp = None \<and> get_text sp = ''Contains: milk, wheat.'')"
  shows "set (extract_allergens sp) = {''milk'', ''wheat''}
         \<and> ''nut_free'' \<in> set (extract_dietary_tags (extract_allergens sp) (Some sp))
         \<and> ''gluten_free'' \<notin> set (extract_dietary_tags (extract_allergens sp) (Some sp))
         \<and> ''dairy_free'' \<notin> set (extract_dietary_tags (extract_allergens sp) (Some sp))"
  using tags_milk_wheat [of sp] by (simp add: allergens_milk_wheat [OF assms])

theorem contains_milk_wheat_witness:
  "set (extract_allergens \<lparr>anchors = [], get_text = ''Contains: milk, wheat.'', allergen_div = None\<rparr>)
     = {''milk'', ''wheat''}
   \<and> extract_dietary_tags
        (extract_allergens \<lparr>anchors = [], get_text = ''Contains: milk, wheat.'', allergen_div = None\<rparr>)
        (Some \<lparr>anchors = [], get_text = ''Contains: milk, wheat.'', allergen_div = None\<rparr>)
      = [''nut_free'']"
proof -
  have "extract_dietary_tags [''milk'', ''wheat'']
          (Some \<lparr>anchors = [], get_text = ''Contains: milk, wheat.'', allergen_div = None\<rparr>)
        = [''nut_free'']"
    by code_simp
  then show ?thesis
    using contains_milk_wheat [of "\<lparr>anchors = [], get_text = ''Contains: milk, wheat.'', allergen_div = None\<rparr>"]
      allergens_milk_wheat [of "\<lparr>anchors = [], get_text = ''Contains: milk, wheat.'', allergen_div = None\<rparr>"]
    by simp
qed

section \<open>The meal period of an item\<close>

lemma find_next_loop_None:
  "(find_next_loop n es = None) =
   (\<forall>e \<in> set (take n es).
      \<not> (el_name e = ''div'' \<and> ''report_recipe_identifier'' \<in> set (el_class e)))"
  by (induction n es rule: find_next_loop.induct) auto

lemma meal_period_map_eq: "meal_period_map p = (if p = ''late night'' then ''late_night'' else p)"
  by (simp add: meal_period_map_def)

lemma item_dropped:
  assumes "find_recipe_identifier link = None
           \<or> (\<exists>d. find_recipe_identifier link = Some d \<and> extract_meal_period (el_text d) = None)"
  shows "food_links_loop self (link # links) meal_data = food_links_loop self links meal_data"
  using assms by (auto simp add: Let_def)

lemma no_marker_within_10:
  assumes "\<forall>e \<in> set (take 10 (next_elements link)).
             \<not> (el_name e = ''div'' \<and> ''report_recipe_identifier'' \<in> set (el_class e))"
  shows "find_recipe_identifier link = None"
  using assms unfolding find_recipe_identifier_def find_next_loop_None by blast

lemma extract_meal_period_cases:
  "(CHR ''*'' \<notin> set recipe_text \<or> length (py_split recipe_text ''*'') < 4
      \<longrightarrow> extract_meal_period recipe_text = None)
   \<and> (CHR ''*'' \<in> set recipe_text \<and> length (py_split recipe_text ''*'') \<ge> 4
      \<longrightarrow> extract_meal_period recipe_text
            = Some (meal_period_map (py_strip (py_lower (last (py_split recipe_text ''*''))))))"
  by (auto simp add: extract_meal_period_def Let_def)

text \<open>
  C3.  A recipe identifier without \<open>*\<close>, or with fewer than four fields between
  \<open>*\<close>, has no meal period.  Otherwise its meal period is the last field, lowercased and
  stripped of the white space around it, then looked up in the synonym table:
  \<open>breakfast\<close>, \<open>lunch\<close>, \<open>dinner\<close> and \<open>brunch\<close> stay, \<open>late night\<close> becomes
  \<open>late_night\<close>, any other label passes through.  A food link with no recipe-identifier
  marker among the ten elements after it has no recipe identifier, and a food link without
  recipe identifier or without meal period adds nothing to the menu: the loop goes on with
  the next link.
\<close>

theorem meal_period_of_recipe_identifier:
  "(CHR ''*'' \<notin> set recipe_text \<or> length (py_split recipe_text ''*'') < 4
      \<longrightarrow> extract_meal_period recipe_text = None)
   \<and> (CHR ''*'' \<in> set recipe_text \<and> length (py_split recipe_text ''*'') \<ge> 4
      \<longrightarrow> extract_meal_period recipe_text
            = Some (meal_period_map (py_strip (py_lower (last (py_split recipe_text ''*''))))))
   \<and> meal_period_map ''breakfast'' = ''breakfast'' \<and> meal_period_map ''lunch'' = ''lunch''
   \<and> meal_period_map ''dinner'' = ''dinner'' \<and> meal_period_map ''brunch'' = ''brunch''
   \<and> meal_period_map ''late night'' = ''late_night''
   \<and> (label \<notin> {''breakfast'', ''lunch'', ''dinner'', ''brunch'', ''late night''}
      \<longrightarrow> meal_period_map label = label)
   \<and> ((\<forall>e \<in> set (take 10 (next_elements link)).
          \<not> (el_name e = ''div'' \<and> ''report_recipe_identifier'' \<in> set (el_class e)))
      \<longrightarrow> find_recipe_identifier link = None)
   \<and> (find_recipe_identifier link = None
       \<or> (\<exists>d. find_recipe_identifier link = Some d \<and> extract_meal_period (el_text d) = None)
      \<longrightarrow> food_links_loop self (link # links) meal_data = food_links_loop self links meal_data)"
  using extract_meal_period_cases [of recipe_text] no_marker_within_10 [of link]
    item_dropped [of link self links meal_data]
  by (simp add: meal_period_map_eq)

theorem meal_period_of_recipe_identifier_witness:
  "extract_meal_period ''a*b*c*Late Night'' = Some ''late_night''
   \<and> extract_meal_period ''a*b*c'' = None
   \<and> meal_period_map ''snack'' = ''snack''
   \<and> find_recipe_identifier
         far_marker_link = None
   \<and> food_links_loop default_scraper
         [far_marker_link] [] = []"
proof -
  have fields: "CHR ''*'' \<in> set ''a*b*c*Late Night''"
    "length (py_split ''a*b*c*Late Night'' ''*'') \<ge> 4"
    "meal_period_map (py_strip (py_lower (last (py_split ''a*b*c*Late Night'' ''*'')))) = ''late_night''"
    "length (py_split ''a*b*c'' ''*'') < 4"
    "''snack'' \<notin> {''breakfast'', ''lunch'', ''dinner'', ''brunch'', ''late night''}"
    by code_simp+
  have hops: "\<forall>e \<in> set (take 10 (next_elements far_marker_link)).
                \<not> (el_name e = ''div'' \<and> ''report_recipe_identifier'' \<in> set (el_class e))"
    by (simp add: far_marker_link_def)
  show ?thesis
    using meal_period_of_recipe_identifier
            [of "''a*b*c*Late Night''" "''snack''" far_marker_link default_scraper "[]" "[]"]
          meal_period_of_recipe_identifier
            [of "''a*b*c''" "''snack''" far_marker_link default_scraper "[]" "[]"]
          fields hops
    by simp
qed

text \<open>
  The last field is not only lowercased: for \<open>a*b*c* Lunch\<close> the meal period is
  \<open>lunch\<close>, while the lowercased last field, with its blank, is not in the table and
  would pass through as it is.
\<close>

theorem meal_period_not_only_lowercased:
  "extract_meal_period ''a*b*c* Lunch'' = Some ''lunch''
   \<and> meal_period_map (py_lower (last (py_split ''a*b*c* Lunch'' ''*''))) = '' lunch''
   \<and> extract_meal_period ''a*b*c* Lunch''
       \<noteq> Some (meal_period_map (py_lower (last (py_split ''a*b*c* Lunch'' ''*''))))"
  by code_simp

section \<open>Requests with retries\<close>

lemma sleep_retry_ok:
  assumes "0 \<le> d"
  shows "time_sleep (Fin (of_int (d * (int k + 1)))) = None"
proof -
  from assms have "0 \<le> d * (int k + 1)" by simp
  then have "\<not> (of_int (d * (int k + 1)) :: rat) < 0"
    by (simp only: not_less of_int_0_le_iff)
  then show ?thesis
    by (simp add: time_sleep_def del: of_int_mult of_int_add)
qed

lemma request_loop_all_fail:
  assumes "0 \<le> retry_delay self"
    and "\<forall>k < n. \<exists>msg. w (length (requested s) + k) u = Inl msg"
    and "int attempt + int n = retries + 1"
  shows "request_loop self w u retries attempt n s =
           (Inr None,
            s\<lparr>requested := requested s @ replicate n u,
              slept := slept s @ map (\<lambda>k. Fin (of_int (retry_delay self * (int k + 1))))
                                   [attempt ..< attempt + n - 1]\<rparr>)"
  using assms
proof (induction n arbitrary: attempt s)
  case 0
  then show ?case by simp
next
  case (Suc n)
  from Suc.prems(2) obtain msg where m: "w (length (requested s)) u = Inl msg"
    by (metis add.right_neutral zero_less_Suc)
  show ?case
  proof (cases "n = 0")
    case True
    with Suc.prems m show ?thesis by simp
  next
    case False
    let ?s1 = "s\<lparr>requested := requested s @ [u],
                 slept := slept s @ [Fin (of_int (retry_delay self * (int attempt + 1)))]\<rparr>"
    have lt: "int attempt < retries" using Suc.prems(3) False by simp
    have fails: "\<forall>k < n. \<exists>msg. w (length (requested ?s1) + k) u = Inl msg"
    proof (intro allI impI)
      fix k assume "k < n"
      then have "Suc k < Suc n" by simp
      with Suc.prems(2) obtain msg' where "w (length (requested s) + Suc k) u = Inl msg'"
        by blast
      then show "\<exists>msg. w (length (requested ?s1) + k) u = Inl msg" by simp
    qed
    have "request_loop self w u retries (Suc attempt) n ?s1 =
            (Inr None,
             ?s1\<lparr>requested := requested ?s1 @ replicate n u,
                  slept := slept ?s1 @ map (\<lambda>k. Fin (of_int (retry_delay self * (int k + 1))))
                                          [Suc attempt ..< Suc attempt + n - 1]\<rparr>)"
      using Suc.IH [where attempt = "Suc attempt" and s = ?s1] Suc.prems(1,3) fails by simp
    moreover have "[attempt ..< attempt + Suc n - 1] = attempt # [Suc attempt ..< Suc attempt + n - 1]"
      using False by (simp add: upt_conv_Cons)
    ultimately show ?thesis
      using m lt sleep_retry_ok [OF Suc.prems(1), of attempt]
      by (simp add: Let_def replicate_app_Cons_same)
  qed
qed

lemma request_loop_success:
  assumes "0 \<le> retry_delay self"
    and "\<forall>j < k. \<exists>msg. w (length (requested s) + j) u = Inl msg"
    and "w (length (requested s) + k) u = Inr response"
    and "k < n" and "int attempt + int n = retries + 1"
  shows "request_loop self w u retries attempt n s =
           (Inr (Some response),
            s\<lparr>requested := requested s @ replicate (Suc k) u,
              slept := slept s @ map (\<lambda>k. Fin (of_int (retry_delay self * (int k + 1))))
                                   [attempt ..< attempt + k]\<rparr>)"
  using assms
proof (induction k arbitrary: attempt n s)
  case 0
  then obtain n' where n: "n = Suc n'" by (cases n) auto
  with 0 show ?case by (simp add: Let_def)
next
  case (Suc k)
  then obtain n' where n: "n = Suc n'" by (cases n) auto
  from Suc.prems(2) obtain msg where m: "w (length (requested s)) u = Inl msg"
    by (metis add.right_neutral zero_less_Suc)
  let ?s1 = "s\<lparr>requested := requested s @ [u],
               slept := slept s @ [Fin (of_int (retry_delay self * (int attempt + 1)))]\<rparr>"
  have lt: "int attempt < retries" using Suc.prems(4,5) by simp
  have fails: "\<forall>j < k. \<exists>msg. w (length (requested ?s1) + j) u = Inl msg"
  proof (intro allI impI)
    fix j assume "j < k"
    then have "Suc j < Suc k" by simp
    with Suc.prems(2) obtain msg' where "w (length (requested s) + Suc j) u = Inl msg'"
      by blast
    then show "\<exists>msg. w (length (requested ?s1) + j) u = Inl msg" by simp
  qed
  have "request_loop self w u retries (Suc attempt) n' ?s1 =
          (Inr (Some response),
           ?s1\<lparr>requested := requested ?s1 @ replicate (Suc k) u,
                slept := slept ?s1 @ map (\<lambda>k. Fin (of_int (retry_delay self * (int k + 1))))
                                        [Suc attempt ..< Suc attempt + k]\<rparr>)"
    using Suc.IH [where attempt = "Suc attempt" and s = ?s1 and n = n'] Suc.prems n fails
    by simp
  moreover have "[attempt ..< attempt + Suc k] = attempt # [Suc attempt ..< Suc attempt + k]"
    by (simp add: upt_conv_Cons)
  ultimately show ?case
    using m lt n sleep_retry_ok [OF Suc.prems(1), of attempt]
    by (simp add: Let_def replicate_app_Cons_same)
qed

lemma request_loop_no_exception:
  assumes "0 \<le> retry_delay self"
  shows "\<exists>r. fst (request_loop self w u retries attempt n s) = Inr r"
  using assms
proof (induction n arbitrary: attempt s)
  case 0
  then show ?case by simp
next
  case (Suc n)
  show ?case
  proof (cases "w (length (requested s)) u")
    case (Inr response)
    then show ?thesis by (simp add: Let_def)
  next
    case (Inl msg)
    then show ?thesis
      using Suc.IH [OF Suc.prems] sleep_retry_ok [OF Suc.prems, of attempt]
      by (simp add: Let_def)
  qed
qed

lemma request_loop_attempts:
  "length (requested (snd (request_loop self w u retries attempt n s)))
     \<le> length (requested s) + n"
proof (induction n arbitrary: attempt s)
  case 0
  then show ?case by simp
next
  case (Suc n)
  show ?case
  proof (cases "w (length (requested s)) u")
    case (Inr response)
    then show ?thesis by (simp add: Let_def)
  next
    case (Inl msg)
    let ?secs = "Fin (rat_of_int (retry_delay self * (int attempt + 1)))"
    let ?s1 = "s\<lparr>requested := requested s @ [u]\<rparr>"
    show ?thesis
      using Inl Suc.IH [where attempt = "Suc attempt" and s = "?s1\<lparr>slept := slept ?s1 @ [?secs]\<rparr>"]
      by (auto simp add: Let_def split: option.splits)
  qed
qed

lemma init_retry_configuration:
  "init env arg = Inr self \<Longrightarrow> max_retries self = 3 \<and> retry_delay self = 2"
  by (auto simp add: init_def split: sum.splits option.splits if_splits)

text \<open>
  C7.  For a scraper built by its constructor, \<open>make_request\<close> with \<open>r\<close> retries (3
  when none is given) never raises, and makes at most \<open>r + 1\<close> requests.  When all of
  them fail it returns \<open>None\<close>, after exactly \<open>r + 1\<close> requests and after sleeping
  \<open>2 * k\<close> seconds before the \<open>k\<close>-th retry (2, 4, 6 seconds for 3 retries).  When the
  first request to succeed is the one after \<open>k\<close> failures, it returns that response after
  \<open>k\<close> such sleeps.
\<close>

theorem make_request_retries:
  assumes "init env arg = Inr self"
    and "r = (case retries of None \<Rightarrow> 3 | Some n \<Rightarrow> n)"
  shows "(\<exists>res. fst (make_request self w u retries s) = Inr res)
       \<and> length (requested (snd (make_request self w u retries s)))
           \<le> length (requested s) + nat (r + 1)
       \<and> ((\<forall>k < nat (r + 1). \<exists>msg. w (length (requested s) + k) u = Inl msg)
           \<longrightarrow> make_request self w u retries s =
                 (Inr None,
                  s\<lparr>requested := requested s @ replicate (nat (r + 1)) u,
                    slept := slept s @ map (\<lambda>k. Fin (of_int (2 * (int k + 1)))) [0 ..< nat r]\<rparr>))
       \<and> (\<forall>k < nat (r + 1). \<forall>response.
             (\<forall>j < k. \<exists>msg. w (length (requested s) + j) u = Inl msg)
             \<and> w (length (requested s) + k) u = Inr response
           \<longrightarrow> make_request self w u retries s =
                 (Inr (Some response),
                  s\<lparr>requested := requested s @ replicate (Suc k) u,
                    slept := slept s @ map (\<lambda>k. Fin (of_int (2 * (int k + 1)))) [0 ..< k]\<rparr>))"
proof -
  from assms(1) have cfg: "max_retries self = 3" "retry_delay self = 2"
    using init_retry_configuration by blast+
  have r: "(case retries of None \<Rightarrow> max_retries self | Some n \<Rightarrow> n) = r"
    using assms(2) cfg by (simp split: option.splits)
  have mr: "make_request self w u retries s = request_loop self w u r 0 (nat (r + 1)) s"
    by (simp add: make_request_def r)
  have d: "0 \<le> retry_delay self" using cfg by simp
  have 1: "\<exists>res. fst (make_request self w u retries s) = Inr res"
    unfolding mr by (rule request_loop_no_exception [OF d])
  have 2: "length (requested (snd (make_request self w u retries s)))
             \<le> length (requested s) + nat (r + 1)"
    unfolding mr by (rule request_loop_attempts)
  have 3: "make_request self w u retries s =
             (Inr None,
              s\<lparr>requested := requested s @ replicate (nat (r + 1)) u,
                slept := slept s @ map (\<lambda>k. Fin (of_int (2 * (int k + 1)))) [0 ..< nat r]\<rparr>)"
    if fails: "\<forall>k < nat (r + 1). \<exists>msg. w (length (requested s) + k) u = Inl msg"
  proof (cases "0 \<le> r + 1")
    case True
    then have nat_eq: "nat (r + 1) - Suc 0 = nat r" by arith
    from True have "int 0 + int (nat (r + 1)) = r + 1" by simp
    from request_loop_all_fail [where attempt = 0 and n = "nat (r + 1)" and retries = r
          and self = self and w = w and s = s and u = u, OF d fails this]
      True cfg nat_eq show ?thesis
      unfolding mr by simp
  next
    case False
    then have "nat (r + 1) = 0" "nat r = 0" by simp_all
    then show ?thesis unfolding mr by simp
  qed
  have 4: "make_request self w u retries s =
             (Inr (Some response),
              s\<lparr>requested := requested s @ replicate (Suc k) u,
                slept := slept s @ map (\<lambda>k. Fin (of_int (2 * (int k + 1)))) [0 ..< k]\<rparr>)"
    if "k < nat (r + 1)" "\<forall>j < k. \<exists>msg. w (length (requested s) + j) u = Inl msg"
       "w (length (requested s) + k) u = Inr response" for k response
  proof -
    from that(1) have "int 0 + int (nat (r + 1)) = r + 1" by simp
    from request_loop_success [where attempt = 0 and n = "nat (r + 1)" and retries = r
        and self = self and w = w and s = s and u = u and k = k, OF d that(2,3,1) this] cfg show ?thesis
      unfolding mr by simp
  qed
  from 1 2 3 4 show ?thesis by blast
qed

lemma init_default: "init \<lparr>MAX_ITEMS_PER_MEAL = None, SCRAPER_DELAY = None\<rparr> None = Inr default_scraper"
  by code_simp

theorem make_request_retries_witness:
  "make_request default_scraper (\<lambda>k u. Inl ''timed out'') ''https://foodpro.students.vt.edu/menus/'' None
     \<lparr>requested = [], slept = []\<rparr>
   = (Inr None,
      \<lparr>requested = replicate 4 ''https://foodpro.students.vt.edu/menus/'',
        slept = [Fin 2, Fin 4, Fin 6]\<rparr>)"
proof -
  have "map (\<lambda>k. Fin (of_int (2 * (int k + 1)))) [0 ..< nat 3] = [Fin 2, Fin 4, Fin 6]"
    by (simp add: upt_rec)
  then show ?thesis
    using make_request_retries [OF init_default, where r = 3 and retries = None
        and w = "\<lambda>k u. Inl ''timed out''" and s = "\<lparr>requested = [], slept = []\<rparr>"
        and u = "''https://foodpro.students.vt.edu/menus/''"]
    by simp
qed

section \<open>The fallback list of hall discovery\<close>

lemma discover_cases:
  "fst (discover_dining_halls self w s) =
     (case fst (make_request self w (menu_base self @ ''/'') None s) of
        Inr (Some (Inr sp)) \<Rightarrow>
          (let dining_halls = concat (map (hall_of_link self) (find_all_a hall_link_pattern sp))
           in if dining_halls \<noteq> [] then dining_halls else get_fallback_dining_halls self)
      | _ \<Rightarrow> get_fallback_dining_halls self)"
  by (simp add: discover_dining_halls_def Let_def split: prod.splits sum.splits option.splits)

text \<open>
  C2.  When the fetch of the directory page fails (\<open>make_request\<close> returns \<open>None\<close>), and
  when the page is fetched and parsed but yields no hall, \<open>discover_dining_halls\<close> returns
  the fallback list: four halls, in this order, D2 at Dietrick Hall (15), Food Court /
  Hokie Grill at Owens (09), Turner Place at Lavery Hall (14) and West End at Cochrane
  Hall (16), each with its \<open>MenuAtLocation.aspx\<close> address under the base URL.
\<close>

theorem discover_fallback:
  assumes "fst (make_request self w (menu_base self @ ''/'') None s) = Inr None
           \<or> (\<exists>sp. fst (make_request self w (menu_base self @ ''/'') None s) = Inr (Some (Inr sp))
                    \<and> concat (map (hall_of_link self) (find_all_a hall_link_pattern sp)) = [])"
  shows "fst (discover_dining_halls self w s) = get_fallback_dining_halls self
       \<and> length (get_fallback_dining_halls self) = 4
       \<and> map name (get_fallback_dining_halls self)
           = [''D2 at Dietrick Hall'', ''Food Court / Hokie Grill at Owens'',
              ''Turner Place at Lavery Hall'', ''West End at Cochrane Hall'']
       \<and> map location_num (get_fallback_dining_halls self) = [''15'', ''09'', ''14'', ''16'']
       \<and> map url (get_fallback_dining_halls self)
           = map (\<lambda>n. base_url self @ ''/menus/MenuAtLocation.aspx?locationNum='' @ n @ ''&naFlag=1'')
               [''15'', ''09'', ''14'', ''16'']"
proof -
  from assms have "fst (discover_dining_halls self w s) = get_fallback_dining_halls self"
    by (auto simp add: discover_cases)
  then show ?thesis by (simp add: get_fallback_dining_halls_def)
qed

lemma directory_fetch_fails:
  "fst (make_request default_scraper (\<lambda>k u. Inl ''timed out'')
          (menu_base default_scraper @ ''/'') None \<lparr>requested = [], slept = []\<rparr>) = Inr None"
  by code_simp

lemma directory_without_halls:
  "fst (make_request default_scraper
          (\<lambda>k u. Inr (Inr \<lparr>anchors = [], get_text = ''No menus today'', allergen_div = None\<rparr>))
          (menu_base default_scraper @ ''/'') None \<lparr>requested = [], slept = []\<rparr>)
     = Inr (Some (Inr \<lparr>anchors = [], get_text = ''No menus today'', allergen_div = None\<rparr>))"
  "concat (map (hall_of_link default_scraper)
             (find_all_a hall_link_pattern
                \<lparr>anchors = [], get_text = ''No menus today'', allergen_div = None\<rparr>)) = []"
  by code_simp+

theorem discover_fallback_witness:
  "map name (fst (discover_dining_halls default_scraper (\<lambda>k u. Inl ''timed out'')
                    \<lparr>requested = [], slept = []\<rparr>))
     = [''D2 at Dietrick Hall'', ''Food Court / Hokie Grill at Owens'',
        ''Turner Place at Lavery Hall'', ''West End at Cochrane Hall'']
   \<and> map location_num (fst (discover_dining_halls default_scraper (\<lambda>k u. Inl ''timed out'')
                    \<lparr>requested = [], slept = []\<rparr>))
     = [''15'', ''09'', ''14'', ''16'']
   \<and> map name (fst (discover_dining_halls default_scraper
                    (\<lambda>k u. Inr (Inr \<lparr>anchors = [], get_text = ''No menus today'', allergen_div = None\<rparr>))
                    \<lparr>requested = [], slept = []\<rparr>))
     = [''D2 at Dietrick Hall'', ''Food Court / Hokie Grill at Owens'',
        ''Turner Place at Lavery Hall'', ''West End at Cochrane Hall'']"
  using discover_fallback [where self = default_scraper and w = "\<lambda>k u. Inl ''timed out''"
      and s = "\<lparr>requested = [], slept = []\<rparr>"] directory_fetch_fails
    discover_fallback [where self = default_scraper
      and w = "\<lambda>k u. Inr (Inr \<lparr>anchors = [], get_text = ''No menus today'', allergen_div = None\<rparr>)"
      and s = "\<lparr>requested = [], slept = []\<rparr>"] directory_without_halls
  by simp

end
